theory Spec2Isabelle
  imports Complex_Main "HOL-Library.Sublist"
begin

section \<open>Python values\<close>

text \<open>
  The tools of \<^verbatim>\<open>science_agent/tools/custom_tool.py\<close> exchange JSON documents and
  call three outside services (RDKit, the PubMed e-utilities, the ADMET service).
  The embedding starts behind \<^verbatim>\<open>json.loads\<close> and pydantic's parsing of the
  entity list: a tool receives the parsed JSON value, or the list of entity records.
  Every exception the source can raise on such a value is a value of \<open>py_error\<close>.

  Text is a \<open>string\<close>. The character operations of the source (\<^verbatim>\<open>strip\<close>,
  \<^verbatim>\<open>lower\<close>, \<^verbatim>\<open>isdigit\<close>, the slice \<^verbatim>\<open>[:4]\<close>) are modelled on ASCII
  text; a character outside ASCII is left unchanged by \<open>lower\<close>, is no space and no
  digit. The en dash of the placeholder titles is written as its three UTF-8 bytes.
\<close>

datatype py_error =
    AttributeError | TypeError | KeyError | IndexError | ValueError
  | ValidationError | StopIteration | JSONDecodeError | RequestError
  | ConfigError | FileNotFoundError

datatype pyfloat = Finite real | NaN | PosInf | NegInf

datatype json =
    JNull | JBool bool | JInt int | JFloat pyfloat | JStr string
  | JArr "json list" | JObj "(string \<times> json) list"

text \<open>Sequencing of steps that may raise: the first exception ends the sequence.\<close>

definition sbind :: "py_error + 'a \<Rightarrow> ('a \<Rightarrow> py_error + 'b) \<Rightarrow> py_error + 'b" where
  "sbind m f = (case m of Inl err \<Rightarrow> Inl err | Inr x \<Rightarrow> f x)"

text \<open>Truth value of a Python object, as \<^verbatim>\<open>if x:\<close> and \<^verbatim>\<open>x or y\<close> read it.\<close>

fun truthy :: "json \<Rightarrow> bool" where
  "truthy JNull = False"
| "truthy (JBool b) = b"
| "truthy (JInt n) = (n \<noteq> 0)"
| "truthy (JFloat f) = (f \<noteq> Finite 0)"
| "truthy (JStr s) = (s \<noteq> [])"
| "truthy (JArr xs) = (xs \<noteq> [])"
| "truthy (JObj kvs) = (kvs \<noteq> [])"

text \<open>\<^verbatim>\<open>x or y\<close>.\<close>

definition py_or :: "json \<Rightarrow> json \<Rightarrow> json" where
  "py_or x y = (if truthy x then x else y)"

text \<open>\<^verbatim>\<open>x.get(k, default)\<close>: only a dict has the method.\<close>

fun dict_get :: "json \<Rightarrow> string \<Rightarrow> json \<Rightarrow> py_error + json" where
  "dict_get (JObj kvs) k dflt = Inr (case map_of kvs k of Some v \<Rightarrow> v | None \<Rightarrow> dflt)"
| "dict_get _ k dflt = Inl AttributeError"

text \<open>\<^verbatim>\<open>x[k]\<close> with a string key: a missing key of a dict is a KeyError, every
  other object refuses a string index with a TypeError.\<close>

fun subscript :: "json \<Rightarrow> string \<Rightarrow> py_error + json" where
  "subscript (JObj kvs) k = (case map_of kvs k of Some v \<Rightarrow> Inr v | None \<Rightarrow> Inl KeyError)"
| "subscript _ k = Inl TypeError"

text \<open>\<^verbatim>\<open>for x in v\<close>: a list gives its elements, a string its characters, a dict
  its keys; nothing else is iterable.\<close>

fun py_iter :: "json \<Rightarrow> py_error + json list" where
  "py_iter (JArr xs) = Inr xs"
| "py_iter (JStr s) = Inr (map (\<lambda>c. JStr [c]) s)"
| "py_iter (JObj kvs) = Inr (map (\<lambda>kv. JStr (fst kv)) kvs)"
| "py_iter _ = Inl TypeError"

text \<open>The strings of a list of values, or a TypeError at the first value that is
  no string: what \<^verbatim>\<open>sep.join(v)\<close> demands of the items of \<open>v\<close>.\<close>

fun all_strs :: "json list \<Rightarrow> py_error + string list" where
  "all_strs [] = Inr []"
| "all_strs (JStr s # xs) = (case all_strs xs of Inl err \<Rightarrow> Inl err | Inr ss \<Rightarrow> Inr (s # ss))"
| "all_strs (_ # xs) = Inl TypeError"

definition str_items :: "json \<Rightarrow> py_error + string list" where
  "str_items v = (case py_iter v of Inl err \<Rightarrow> Inl err | Inr xs \<Rightarrow> all_strs xs)"

fun join :: "string \<Rightarrow> string list \<Rightarrow> string" where
  "join sep [] = []"
| "join sep [s] = s"
| "join sep (s # t # ss) = s @ sep @ join sep (t # ss)"

subsection \<open>String methods\<close>

definition isspace :: "char \<Rightarrow> bool" where
  "isspace c = (let n = (of_char c :: nat) in (9 \<le> n \<and> n \<le> 13) \<or> (28 \<le> n \<and> n \<le> 32))"

definition strip :: "string \<Rightarrow> string" where
  "strip s = rev (dropWhile isspace (rev (dropWhile isspace s)))"

definition lower_char :: "char \<Rightarrow> char" where
  "lower_char c = (let n = (of_char c :: nat) in if 65 \<le> n \<and> n \<le> 90 then char_of (n + 32) else c)"

definition lower :: "string \<Rightarrow> string" where
  "lower s = map lower_char s"

text \<open>\<^verbatim>\<open>s.split(",")\<close>: the pieces between the separators, one piece for a string
  without separator (also the empty string).\<close>

fun split_acc :: "char \<Rightarrow> string \<Rightarrow> string \<Rightarrow> string list" where
  "split_acc sep cur [] = [rev cur]"
| "split_acc sep cur (c # cs) =
     (if c = sep then rev cur # split_acc sep [] cs else split_acc sep (c # cur) cs)"

definition split :: "char \<Rightarrow> string \<Rightarrow> string list" where
  "split sep s = split_acc sep [] s"

definition is_digit :: "char \<Rightarrow> bool" where
  "is_digit c = (let n = (of_char c :: nat) in 48 \<le> n \<and> n \<le> 57)"




text \<open>\<^verbatim>\<open>(v or "")\<close> followed by a string method: a true value that is no string has
  no such method.\<close>

definition str_or_empty :: "json \<Rightarrow> py_error + string" where
  "str_or_empty v =
     (case py_or v (JStr []) of JStr s \<Rightarrow> Inr s | _ \<Rightarrow> Inl AttributeError)"

section \<open>Data model\<close>

record NormalizedEntity =
  row_id :: nat
  entity_type :: string
  identifier' :: string
  normalized_id :: string
  name :: "string option"
  context_tags :: "string list"
  extras :: "(string \<times> json) list"

record LiteratureRef =
  title :: string
  year :: "int option"
  source :: string
  pmid :: "string option"
  doi :: "string option"
  url :: "string option"
  snippet :: "string option"


record ADMETPrediction =
  ap_normalized_id :: string
  absorption :: pyfloat
  distribution :: pyfloat
  metabolism :: pyfloat
  excretion :: pyfloat
  toxicity :: pyfloat

record RunReport =
  job_id :: string
  input_hash :: string
  n_entities :: nat
  outputs :: "(string \<times> string) list"

text \<open>The run directory \<^verbatim>\<open>RUN_DIR\<close> depends on where the package is installed; its
  last component is always \<^verbatim>\<open>output\<close>. \<open>path_join\<close> is \<^verbatim>\<open>RUN_DIR / name\<close>.\<close>

definition path_join :: "string \<Rightarrow> string \<Rightarrow> string" where
  "path_join d f = d @ ''/'' @ f"

section \<open>Identifier Normalizer\<close>

text \<open>
  RDKit and SHA-1 are collaborators: the normalizer takes them as functions.
  \<open>None\<close> for the library is the case \<^verbatim>\<open>if Chem:\<close> guards against (the module is
  not there); \<open>MolFromSmiles\<close> answers \<open>None\<close> for an identifier it cannot parse.
\<close>

record 'mol rdkit =
  MolFromSmiles :: "string \<Rightarrow> 'mol option"
  MolToSmiles :: "'mol \<Rightarrow> string"
  MolWt :: "'mol \<Rightarrow> pyfloat"
  MolLogP :: "'mol \<Rightarrow> pyfloat"

text \<open>pydantic's check of the field \<^verbatim>\<open>name: str | None\<close>.\<close>

fun validate_name :: "json \<Rightarrow> py_error + string option" where
  "validate_name JNull = Inr None"
| "validate_name (JStr s) = Inr (Some s)"
| "validate_name _ = Inl ValidationError"

text \<open>The branch on the entity type: the normalized identifier and the extras.\<close>

definition normalize_id ::
  "'mol rdkit option \<Rightarrow> (string \<Rightarrow> string) \<Rightarrow> string \<Rightarrow> string \<Rightarrow> string \<times> (string \<times> json) list" where
  "normalize_id Chem sha1_hex etype ident =
     (if etype = ''compound'' then
        (case Chem of
           Some chem \<Rightarrow>
             (case MolFromSmiles chem ident of
                Some mol \<Rightarrow>
                  (let can = (if MolToSmiles chem mol \<noteq> [] then MolToSmiles chem mol else ident)
                   in (take 27 (sha1_hex can),
                       [(''mw'', JFloat (MolWt chem mol)),
                        (''logp'', JFloat (MolLogP chem mol)),
                        (''canonical_smiles'', JStr can)]))
              | None \<Rightarrow> (ident, []))
         | None \<Rightarrow> (ident, [(''note'', JStr ''RDKit not installed; kept original identifier'')]))
      else if etype = ''protein'' then
        (ident, [(''note'', JStr ''Protein normalization is a pass-through in demo'')])
      else (ident, []))"

text \<open>The record the loop appends for a row.\<close>

definition make_entity ::
  "nat \<Rightarrow> string \<Rightarrow> string \<Rightarrow> string \<times> (string \<times> json) list \<Rightarrow> string option \<Rightarrow> string list
     \<Rightarrow> NormalizedEntity" where
  "make_entity i etype ident res nm tags =
     \<lparr>row_id = i, entity_type = etype, identifier' = ident, normalized_id = fst res,
      name = nm, context_tags = tags, extras = snd res\<rparr>"

text \<open>One iteration of the loop over the rows, for the row \<open>r\<close> at index \<open>i\<close>.\<close>

definition normalize_row ::
  "'mol rdkit option \<Rightarrow> (string \<Rightarrow> string) \<Rightarrow> nat \<Rightarrow> json \<Rightarrow> py_error + NormalizedEntity" where
  "normalize_row Chem sha1_hex i r =
     sbind (dict_get r ''entity_type'' JNull) (\<lambda>v1.
     sbind (str_or_empty v1) (\<lambda>s1.
     sbind (dict_get r ''identifier'' JNull) (\<lambda>v2.
     sbind (str_or_empty v2) (\<lambda>s2.
     sbind (dict_get r ''name'' JNull) (\<lambda>nm.
     sbind (dict_get r ''context_tags'' JNull) (\<lambda>v3.
     sbind (str_or_empty v3) (\<lambda>s3.
     sbind (validate_name nm) (\<lambda>nm'.
       Inr (make_entity i (lower (strip s1)) (strip s2)
              (normalize_id Chem sha1_hex (lower (strip s1)) (strip s2)) nm'
              (map strip (filter (\<lambda>t. strip t \<noteq> []) (split CHR '','' s3))))))))))))"

fun normalize_loop ::
  "'mol rdkit option \<Rightarrow> (string \<Rightarrow> string) \<Rightarrow> nat \<Rightarrow> json list \<Rightarrow> NormalizedEntity list
     \<Rightarrow> py_error + NormalizedEntity list" where
  "normalize_loop Chem sha1_hex i [] normalized = Inr normalized"
| "normalize_loop Chem sha1_hex i (r # rows) normalized =
     (case normalize_row Chem sha1_hex i r of
        Inl err \<Rightarrow> Inl err
      | Inr n \<Rightarrow> normalize_loop Chem sha1_hex (Suc i) rows (normalized @ [n]))"

text \<open>The tool's result: the error payload it returns for an input that is neither
  a list nor a dict, or its output.\<close>

datatype 'a tool_result = ErrorPayload | Output 'a

definition NormalizeEntitiesTool_run ::
  "'mol rdkit option \<Rightarrow> (string \<Rightarrow> string) \<Rightarrow> json \<Rightarrow> py_error + NormalizedEntity list tool_result" where
  "NormalizeEntitiesTool_run Chem sha1_hex data =
     (case (case data of
              JArr xs \<Rightarrow> Some (JArr xs)
            | JObj kvs \<Rightarrow> Some (case map_of kvs ''rows'' of Some v \<Rightarrow> v | None \<Rightarrow> JArr [])
            | _ \<Rightarrow> None) of
        None \<Rightarrow> Inr ErrorPayload
      | Some rows \<Rightarrow>
          (case py_iter rows of
             Inl err \<Rightarrow> Inl err
           | Inr rs \<Rightarrow>
               (case normalize_loop Chem sha1_hex 0 rs [] of
                  Inl err \<Rightarrow> Inl err
                | Inr normalized \<Rightarrow> Inr (Output normalized))))"

section \<open>Literature Fetcher\<close>






definition en_dash :: string where
  "en_dash = [CHR 0xE2, CHR 0x80, CHR 0x93]"

text \<open>\<^verbatim>\<open>e.name or e.identifier\<close>.\<close>

definition name_or_identifier :: "NormalizedEntity \<Rightarrow> string" where
  "name_or_identifier e =
     (case name e of None \<Rightarrow> identifier' e | Some n \<Rightarrow> if n \<noteq> [] then n else identifier' e)"













definition placeholder_refs :: "string \<Rightarrow> LiteratureRef list" where
  "placeholder_refs q =
     [\<lparr>title = q @ '' '' @ en_dash @ '' placeholder study'', year = Some 2018, source = ''pubmed'',
       pmid = None, doi = None, url = None, snippet = None\<rparr>,
      \<lparr>title = q @ '' '' @ en_dash @ '' review article'', year = Some 2021, source = ''pubmed'',
       pmid = None, doi = None, url = None, snippet = None\<rparr>]"





section \<open>ADMET Predictor\<close>

text \<open>
  \<^verbatim>\<open>httpx.post\<close> either raises or gives a response with its status code and its
  text. The CSV reader and \<^verbatim>\<open>float\<close> are collaborators: \<open>csv_reader\<close> gives the
  rows of a text, \<open>to_float\<close> is \<open>None\<close> where \<^verbatim>\<open>float(value)\<close> raises its
  ValueError. The base URL is \<open>None\<close> when the environment variable is not set.
\<close>

datatype http_response = TransportError | Response nat string

datatype cell = CFloat pyfloat | CStr string

text \<open>The loop \<^verbatim>\<open>for i, value in enumerate(row)\<close>: the value at index \<open>i\<close> goes
  under \<^verbatim>\<open>headers[i]\<close>, which raises IndexError when the row is longer than the
  header row.\<close>

fun fill_row ::
  "(string \<Rightarrow> pyfloat option) \<Rightarrow> string list \<Rightarrow> string list \<Rightarrow> (string \<rightharpoonup> cell)
     \<Rightarrow> py_error + (string \<rightharpoonup> cell)" where
  "fill_row to_float hs [] row_dict = Inr row_dict"
| "fill_row to_float [] (v # vs) row_dict = Inl IndexError"
| "fill_row to_float (h # hs) (v # vs) row_dict =
     fill_row to_float hs vs
       (row_dict(h \<mapsto> (case to_float v of Some x \<Rightarrow> CFloat x | None \<Rightarrow> CStr v)))"

text \<open>\<^verbatim>\<open>_parse_results\<close>: \<^verbatim>\<open>next\<close> raises StopIteration on a text without rows;
  the first data row is returned as a dict, an empty dict when there is none.\<close>

definition parse_results ::
  "(string \<Rightarrow> string list list) \<Rightarrow> (string \<Rightarrow> pyfloat option) \<Rightarrow> string
     \<Rightarrow> py_error + (string \<rightharpoonup> cell)" where
  "parse_results csv_reader to_float response =
     (case csv_reader response of
        [] \<Rightarrow> Inl StopIteration
      | headers # rows \<Rightarrow>
          (case rows of
             [] \<Rightarrow> Inr Map.empty
           | row # _ \<Rightarrow> fill_row to_float headers row Map.empty))"

text \<open>\<^verbatim>\<open>parsed_data[k]\<close>.\<close>

definition lookup :: "(string \<rightharpoonup> cell) \<Rightarrow> string \<Rightarrow> py_error + cell" where
  "lookup d k = (case d k of None \<Rightarrow> Inl KeyError | Some c \<Rightarrow> Inr c)"

text \<open>pydantic's check of a \<^verbatim>\<open>float\<close> field: a cell is a string only where
  \<^verbatim>\<open>float\<close> has refused it.\<close>

fun validate_float :: "cell \<Rightarrow> py_error + pyfloat" where
  "validate_float (CFloat x) = Inr x"
| "validate_float (CStr s) = Inl ValidationError"

text \<open>The prediction built from a parsed response: the five subscripts, then
  the constructor.\<close>

definition make_prediction :: "string \<Rightarrow> (string \<rightharpoonup> cell) \<Rightarrow> py_error + ADMETPrediction" where
  "make_prediction nid d =
     sbind (lookup d ''solubility'') (\<lambda>c1.
     sbind (lookup d ''ppbr'') (\<lambda>c2.
     sbind (lookup d ''cyp1a2-inhibitor'') (\<lambda>c3.
     sbind (lookup d ''cl-hepa'') (\<lambda>c4.
     sbind (lookup d ''herg'') (\<lambda>c5.
     sbind (validate_float c1) (\<lambda>a.
     sbind (validate_float c2) (\<lambda>di.
     sbind (validate_float c3) (\<lambda>m.
     sbind (validate_float c4) (\<lambda>ex.
     sbind (validate_float c5) (\<lambda>t.
       Inr \<lparr>ap_normalized_id = nid, absorption = a, distribution = di, metabolism = m,
            excretion = ex, toxicity = t\<rparr>))))))))))"

definition zero_prediction :: "string \<Rightarrow> ADMETPrediction" where
  "zero_prediction nid =
     \<lparr>ap_normalized_id = nid, absorption = Finite 0, distribution = Finite 0,
      metabolism = Finite 0, excretion = Finite 0, toxicity = Finite 0\<rparr>"

text \<open>The request body: the header line, then the identifier and the closing
  line, each behind the 24 blanks of the source's indentation.\<close>

definition request_body :: "string \<Rightarrow> string" where
  "request_body ident =
     ''smiles'' @ [CHR 0x0A] @ replicate 24 (CHR '' '') @ ident @ [CHR 0x0A] @ replicate 24 (CHR '' '')"

type_synonym http_post = "string \<Rightarrow> string \<Rightarrow> http_response"

text \<open>One iteration of the loop over the entities: the predictions it appends
  to \<^verbatim>\<open>preds\<close> and the bodies of the requests it sends, or the exception it
  raises.\<close>

definition admet_step ::
  "string option \<Rightarrow> http_post \<Rightarrow> (string \<Rightarrow> string list list) \<Rightarrow> (string \<Rightarrow> pyfloat option)
     \<Rightarrow> NormalizedEntity \<Rightarrow> py_error + (ADMETPrediction list \<times> string list)" where
  "admet_step admetica_url post csv_reader to_float e =
     (if entity_type e = ''compound'' then
        (case admetica_url of
           None \<Rightarrow> Inl ConfigError
         | Some base \<Rightarrow>
             (case post (base @ ''/predict'') (request_body (identifier' e)) of
                TransportError \<Rightarrow> Inl RequestError
              | Response status_code text \<Rightarrow>
                  if status_code = 200 then
                    sbind (parse_results csv_reader to_float text) (\<lambda>parsed_data.
                    sbind (make_prediction (normalized_id e) parsed_data) (\<lambda>p.
                      Inr ([p], [request_body (identifier' e)])))
                  else Inr ([], [request_body (identifier' e)])))
      else if entity_type e = ''protein'' then Inr ([zero_prediction (normalized_id e)], [])
      else Inr ([], []))"

text \<open>The loop, with the list \<^verbatim>\<open>preds\<close> and the log of the request bodies sent so
  far; \<open>post i\<close> is the service as iteration \<open>i\<close> meets it.\<close>

fun admet_loop ::
  "string option \<Rightarrow> (nat \<Rightarrow> http_post) \<Rightarrow> (string \<Rightarrow> string list list) \<Rightarrow> (string \<Rightarrow> pyfloat option)
     \<Rightarrow> nat \<Rightarrow> NormalizedEntity list \<Rightarrow> ADMETPrediction list \<times> string list
     \<Rightarrow> py_error + (ADMETPrediction list \<times> string list)" where
  "admet_loop admetica_url post csv_reader to_float i [] st = Inr st"
| "admet_loop admetica_url post csv_reader to_float i (e # ents) st =
     (case admet_step admetica_url (post i) csv_reader to_float e of
        Inl ex \<Rightarrow> Inl ex
      | Inr out \<Rightarrow>
          admet_loop admetica_url post csv_reader to_float (Suc i) ents
            (fst st @ fst out, snd st @ snd out))"

definition PredictADMETTool_run ::
  "string option \<Rightarrow> (nat \<Rightarrow> http_post) \<Rightarrow> (string \<Rightarrow> string list list) \<Rightarrow> (string \<Rightarrow> pyfloat option)
     \<Rightarrow> NormalizedEntity list \<Rightarrow> py_error + (ADMETPrediction list \<times> string list)" where
  "PredictADMETTool_run admetica_url post csv_reader to_float ents =
     admet_loop admetica_url post csv_reader to_float 0 ents ([], [])"

section \<open>Report Compiler\<close>

text \<open>
  The JSON serializer, the text Python prints for a value that is no string, and
  the SHA-1 of the input file are collaborators.
\<close>

record pylib =
  json_dumps :: "json \<Rightarrow> string"
  json_dumps_indent2 :: "json \<Rightarrow> string"
  py_str :: "json \<Rightarrow> string"
  sha1_file :: "string \<Rightarrow> py_error + string"

text \<open>A value inside an f-string.\<close>

definition format_value :: "pylib \<Rightarrow> json \<Rightarrow> string" where
  "format_value lib v = (case v of JStr s \<Rightarrow> s | _ \<Rightarrow> py_str lib v)"

text \<open>\<^verbatim>\<open>m[k] = v\<close> in a dict that is only ever read with string keys: a list or a
  dict is no key (TypeError), a key that is no string is never found again.\<close>

fun set_key :: "(string \<rightharpoonup> json) \<Rightarrow> json \<Rightarrow> json \<Rightarrow> py_error + (string \<rightharpoonup> json)" where
  "set_key m (JStr k) v = Inr (m(k \<mapsto> v))"
| "set_key m (JArr xs) v = Inl TypeError"
| "set_key m (JObj kvs) v = Inl TypeError"
| "set_key m _ v = Inr m"

text \<open>\<^verbatim>\<open>{item["normalized_id"]: item["summaries"] for item in ...}\<close>.\<close>

fun web_items :: "json list \<Rightarrow> (string \<rightharpoonup> json) \<Rightarrow> py_error + (string \<rightharpoonup> json)" where
  "web_items [] m = Inr m"
| "web_items (item # items) m =
     sbind (subscript item ''normalized_id'') (\<lambda>k.
     sbind (subscript item ''summaries'') (\<lambda>v.
     sbind (set_key m k v) (\<lambda>m'. web_items items m')))"

definition web_map_of :: "json \<Rightarrow> py_error + (string \<rightharpoonup> json)" where
  "web_map_of web_data =
     (case web_data of
        JObj kvs \<Rightarrow>
          (case map_of kvs ''items'' of
             Some items \<Rightarrow> sbind (py_iter items) (\<lambda>xs. web_items xs Map.empty)
           | None \<Rightarrow> Inr Map.empty)
      | _ \<Rightarrow> Inr Map.empty)"

text \<open>\<^verbatim>\<open>{s["normalized_id"]: s for s in ...}\<close>.\<close>

fun index_items :: "json list \<Rightarrow> (string \<rightharpoonup> json) \<Rightarrow> py_error + (string \<rightharpoonup> json)" where
  "index_items [] m = Inr m"
| "index_items (s # ss) m =
     sbind (subscript s ''normalized_id'') (\<lambda>k.
     sbind (set_key m k s) (\<lambda>m'. index_items ss m'))"

definition index_by_id :: "json \<Rightarrow> py_error + (string \<rightharpoonup> json)" where
  "index_by_id v = sbind (py_iter v) (\<lambda>xs. index_items xs Map.empty)"

text \<open>Decimal digits of a number, for \<^verbatim>\<open>{len(ents)}\<close>.\<close>

fun str_of_nat :: "nat \<Rightarrow> string" where
  "str_of_nat n =
     (if n < 10 then [char_of (48 + n)] else str_of_nat (n div 10) @ [char_of (48 + n mod 10)])"

definition preamble :: "string \<Rightarrow> string \<Rightarrow> string \<Rightarrow> nat \<Rightarrow> string list" where
  "preamble job input_path hash n =
     [''# Biology Research Run '' @ en_dash @ '' '' @ job,
      [],
      ''- **Input file**: `'' @ input_path @ ''`'',
      ''- **SHA1**: `'' @ hash @ ''`'',
      ''- **Entities**: '' @ str_of_nat n,
      [],
      ''## Entities'']"

definition entity_lines :: "pylib \<Rightarrow> NormalizedEntity \<Rightarrow> string list" where
  "entity_lines lib e =
     [''### '' @ name_or_identifier e @ '' ('' @ entity_type e @ '')'',
      ''- Normalized ID: `'' @ normalized_id e @ ''`'',
      ''- Context: '' @ (if context_tags e \<noteq> [] then join '', '' (context_tags e) else ''(none)''),
      ''- Extras: `'' @ json_dumps lib (JObj (extras e)) @ ''`'',
      []]"

text \<open>The loop over \<^verbatim>\<open>li["references"]\<close>.\<close>

fun ref_lines :: "pylib \<Rightarrow> json list \<Rightarrow> string list \<Rightarrow> py_error + string list" where
  "ref_lines lib [] pubmed_refs = Inr pubmed_refs"
| "ref_lines lib (item # items) pubmed_refs =
     sbind (dict_get item ''url'' JNull) (\<lambda>u.
       if truthy u then
         sbind (subscript item ''url'') (\<lambda>u'.
           ref_lines lib items (pubmed_refs @ [''- '' @ format_value lib u']))
       else ref_lines lib items (pubmed_refs @ [''- (no URL available)'']))"

text \<open>The list \<^verbatim>\<open>pubmed_refs\<close> for the bundle \<open>li\<close> found for an entity.\<close>

definition pubmed_refs_of :: "pylib \<Rightarrow> json option \<Rightarrow> py_error + string list" where
  "pubmed_refs_of lib li =
     (case li of
        None \<Rightarrow> Inr [''- (none)'']
      | Some l \<Rightarrow>
          if truthy l then
            sbind (dict_get l ''references'' JNull) (\<lambda>rs.
              if truthy rs then
                sbind (subscript l ''references'') (\<lambda>rs'.
                sbind (py_iter rs') (\<lambda>items. ref_lines lib items []))
              else Inr [''- (none)''])
          else Inr [''- (none)''])"

text \<open>\<^verbatim>\<open>''.join(we) if we else 'No pubmed refs available'\<close>.\<close>

definition summary_line :: "json option \<Rightarrow> py_error + string" where
  "summary_line we =
     (case we of
        None \<Rightarrow> Inr ''No pubmed refs available''
      | Some w \<Rightarrow>
          if truthy w then sbind (str_items w) (\<lambda>ss. Inr (concat ss))
          else Inr ''No pubmed refs available'')"

definition admet_lines :: "pylib \<Rightarrow> json option \<Rightarrow> string list" where
  "admet_lines lib ad =
     (case ad of
        None \<Rightarrow> [''#### ADMET / Toxicity'', ''No ADMET data available'', []]
      | Some a \<Rightarrow>
          if truthy a then
            [''#### ADMET / Toxicity'', ''```json'', json_dumps_indent2 lib a, ''```'', []]
          else [''#### ADMET / Toxicity'', ''No ADMET data available'', []])"

text \<open>One iteration of the loop over the entities: the lines it appends.\<close>

definition section_lines ::
  "pylib \<Rightarrow> (string \<rightharpoonup> json) \<Rightarrow> (string \<rightharpoonup> json) \<Rightarrow> (string \<rightharpoonup> json) \<Rightarrow> NormalizedEntity
     \<Rightarrow> py_error + string list" where
  "section_lines lib web_map literature_map admet_map e =
     sbind (pubmed_refs_of lib (literature_map (normalized_id e))) (\<lambda>pubmed_refs.
     sbind (summary_line (web_map (normalized_id e))) (\<lambda>summary.
       Inr (entity_lines lib e
            @ [''#### Literature Summary'', summary, ''- **PubMed refs**:''] @ pubmed_refs @ [[]]
            @ admet_lines lib (admet_map (normalized_id e)))))"

fun report_loop ::
  "pylib \<Rightarrow> (string \<rightharpoonup> json) \<Rightarrow> (string \<rightharpoonup> json) \<Rightarrow> (string \<rightharpoonup> json) \<Rightarrow> NormalizedEntity list
     \<Rightarrow> string list \<Rightarrow> py_error + string list" where
  "report_loop lib web_map literature_map admet_map [] lines = Inr lines"
| "report_loop lib web_map literature_map admet_map (e # ents) lines =
     sbind (section_lines lib web_map literature_map admet_map e) (\<lambda>sec.
       report_loop lib web_map literature_map admet_map ents (lines @ sec))"

text \<open>What the tool leaves: the path it returns, the lines of \<^verbatim>\<open>report.md\<close> (the
  file holds them joined by newlines) and the record written to
  \<^verbatim>\<open>run_meta.json\<close>.\<close>

record compiled =
  out_path :: string
  report_lines :: "string list"
  report :: RunReport

definition run_report :: "string \<Rightarrow> string \<Rightarrow> nat \<Rightarrow> RunReport" where
  "run_report run_dir hash n =
     \<lparr>job_id = ''output'', input_hash = hash, n_entities = n,
      outputs =
        [(''report_md'', path_join run_dir ''report.md''),
         (''entities_json'', path_join run_dir ''normalized_entities.json''),
         (''literature_json'', path_join run_dir ''literature_summaries.json''),
         (''admet_json'', path_join run_dir ''admet_predictions.json'')]\<rparr>"

definition CompileReportTool_run ::
  "pylib \<Rightarrow> string \<Rightarrow> NormalizedEntity list \<Rightarrow> json \<Rightarrow> json \<Rightarrow> json \<Rightarrow> string \<Rightarrow> py_error + compiled" where
  "CompileReportTool_run lib run_dir ents web_data literature admet input_path =
     sbind (web_map_of web_data) (\<lambda>web_map.
     sbind (index_by_id literature) (\<lambda>literature_map.
     sbind (index_by_id admet) (\<lambda>admet_map.
     sbind (sha1_file lib input_path) (\<lambda>hash.
     sbind (report_loop lib web_map literature_map admet_map ents
              (preamble ''output'' input_path hash (length ents))) (\<lambda>lines.
       Inr \<lparr>out_path = path_join run_dir ''report.md'', report_lines = lines,
            report = run_report run_dir hash (length ents)\<rparr>)))))"

section \<open>Persisted artifacts\<close>

text \<open>The file each tool writes under the run directory, in the order of the
  tasks of the crew: \<^verbatim>\<open>LoadCSVTool\<close>, \<^verbatim>\<open>NormalizeEntitiesTool\<close>,
  \<^verbatim>\<open>FetchPubMedTool\<close>, \<^verbatim>\<open>PredictADMETTool\<close>, and the two files of
  \<^verbatim>\<open>CompileReportTool\<close>.\<close>

definition written_by_load :: "string \<Rightarrow> string" where
  "written_by_load run_dir = path_join run_dir ''raw_input.json''"

definition written_by_normalize :: "string \<Rightarrow> string" where
  "written_by_normalize run_dir = path_join run_dir ''normalized_entities.json''"

definition written_by_fetch :: "string \<Rightarrow> string" where
  "written_by_fetch run_dir = path_join run_dir ''literature_refs.json''"

definition written_by_admet :: "string \<Rightarrow> string" where
  "written_by_admet run_dir = path_join run_dir ''admet_predictions.json''"

definition written_by_compile :: "string \<Rightarrow> string list" where
  "written_by_compile run_dir = [path_join run_dir ''report.md'', path_join run_dir ''run_meta.json'']"

definition persisted :: "string \<Rightarrow> string list" where
  "persisted run_dir =
     [written_by_load run_dir, written_by_normalize run_dir, written_by_fetch run_dir,
      written_by_admet run_dir] @ written_by_compile run_dir"

section \<open>Shapes of the compiler's inputs\<close>

text \<open>
  What the compiler reads of the documents the other steps dump. A bundle
  (\<^verbatim>\<open>LiteratureBundle\<close>), a prediction (\<^verbatim>\<open>ADMETPrediction\<close>) and a web summary
  (\<^verbatim>\<open>LitWebSummary\<close>) are dicts with a \<^verbatim>\<open>normalized_id\<close>; the references of
  a bundle are dicts (\<^verbatim>\<open>LiteratureRef\<close>), the summaries of a web summary are
  strings. The predicates ask no more of a document than these fields.
\<close>

fun is_dict :: "json \<Rightarrow> bool" where
  "is_dict (JObj kvs) = True"
| "is_dict _ = False"

fun hashable :: "json \<Rightarrow> bool" where
  "hashable (JArr xs) = False"
| "hashable (JObj kvs) = False"
| "hashable _ = True"

fun keyed :: "json \<Rightarrow> bool" where
  "keyed (JObj kvs) = (case map_of kvs ''normalized_id'' of Some k \<Rightarrow> hashable k | None \<Rightarrow> False)"
| "keyed _ = False"

definition refs_shaped :: "json \<Rightarrow> bool" where
  "refs_shaped rs = (\<not> truthy rs \<or> (case rs of JArr items \<Rightarrow> list_all is_dict items | _ \<Rightarrow> False))"

fun bundle_shaped :: "json \<Rightarrow> bool" where
  "bundle_shaped (JObj kvs) =
     (keyed (JObj kvs) \<and> (case map_of kvs ''references'' of Some rs \<Rightarrow> refs_shaped rs | None \<Rightarrow> True))"
| "bundle_shaped _ = False"

definition summaries_shaped :: "json \<Rightarrow> bool" where
  "summaries_shaped v = (\<not> truthy v \<or> (case str_items v of Inr ss \<Rightarrow> True | Inl ex \<Rightarrow> False))"

fun summary_shaped :: "json \<Rightarrow> bool" where
  "summary_shaped (JObj kvs) =
     (keyed (JObj kvs) \<and> (case map_of kvs ''summaries'' of Some v \<Rightarrow> summaries_shaped v | None \<Rightarrow> False))"
| "summary_shaped _ = False"

text \<open>The entries the compiler iterates over in the web container: none when the
  container is no dict with the key \<^verbatim>\<open>items\<close>.\<close>

definition has_items :: "json \<Rightarrow> bool" where
  "has_items web_data =
     (case web_data of JObj kvs \<Rightarrow> (case map_of kvs ''items'' of Some items \<Rightarrow> True | None \<Rightarrow> False)
      | _ \<Rightarrow> False)"

definition web_entries :: "json \<Rightarrow> py_error + json list" where
  "web_entries web_data =
     (case web_data of
        JObj kvs \<Rightarrow> (case map_of kvs ''items'' of Some items \<Rightarrow> py_iter items | None \<Rightarrow> Inr [])
      | _ \<Rightarrow> Inr [])"

text \<open>An entry under the normalized identifier \<open>nid\<close>.\<close>

definition has_id :: "string \<Rightarrow> json \<Rightarrow> bool" where
  "has_id nid item = (subscript item ''normalized_id'' = Inr (JStr nid))"

section \<open>Stand-ins for the collaborators\<close>

text \<open>Concrete collaborators and inputs, for running the tools on examples. The
  stand-in for RDKit knows ethanol under two spellings; the stand-in for SHA-1
  knows the digest of \<^verbatim>\<open>CCO\<close>.\<close>

definition demo_rdkit :: "string rdkit" where
  "demo_rdkit =
     \<lparr>MolFromSmiles = (\<lambda>s. if s = ''CCO'' \<or> s = ''OCC'' then Some ''CCO'' else None),
      MolToSmiles = (\<lambda>m. m), MolWt = (\<lambda>m. Finite 46), MolLogP = (\<lambda>m. Finite 0)\<rparr>"

definition demo_sha1 :: "string \<Rightarrow> string" where
  "demo_sha1 s =
     (if s = ''CCO'' then ''89b394fd02e5e5e60ae1e167780ea7ab3276288e''
      else replicate 40 (CHR ''0''))"


definition ethanol :: NormalizedEntity where
  "ethanol =
     \<lparr>row_id = 0, entity_type = ''compound'', identifier' = ''OCC'',
      normalized_id = ''89b394fd02e5e5e60ae1e167780'', name = Some ''Ethanol'',
      context_tags = [''solvent'', ''cns''],
      extras = [(''mw'', JFloat (Finite 46)), (''logp'', JFloat (Finite 0)),
                (''canonical_smiles'', JStr ''CCO'')]\<rparr>"

definition unparsed_row :: json where
  "unparsed_row = JObj [(''entity_type'', JStr ''compound''), (''identifier'', JStr ''not-a-smiles'')]"





text \<open>A CSV reader for text without quotes, a table for \<^verbatim>\<open>float\<close>, and three
  ADMET services: one that answers with the five scores, one that answers with
  an error status, and one that cannot be reached.\<close>

definition demo_csv :: "string \<Rightarrow> string list list" where
  "demo_csv text = (if text = [] then [] else map (split CHR '','') (split (CHR 0x0A) text))"

definition demo_float :: "string \<Rightarrow> pyfloat option" where
  "demo_float =
     map_of [(''0.5'', Finite (5 / 10)), (''0.3'', Finite (3 / 10)), (''0.1'', Finite (1 / 10)),
             (''0.2'', Finite (2 / 10)), (''0.05'', Finite (5 / 100))]"

definition admet_up :: http_post where
  "admet_up u body =
     Response 200 (''solubility,ppbr,cyp1a2-inhibitor,cl-hepa,herg'' @ [CHR 0x0A] @ ''0.5,0.3,0.1,0.2,0.05'')"

definition admet_error_status :: http_post where
  "admet_error_status u body = Response 500 ''Internal Server Error''"

definition admet_unreachable :: http_post where
  "admet_unreachable u body = TransportError"

definition admet_empty_body :: http_post where
  "admet_empty_body u body = Response 200 []"

definition insulin :: NormalizedEntity where
  "insulin =
     \<lparr>row_id = 2, entity_type = ''protein'', identifier' = ''P01308'', normalized_id = ''P01308'',
      name = Some ''Insulin'', context_tags = [],
      extras = [(''note'', JStr ''Protein normalization is a pass-through in demo'')]\<rparr>"

text \<open>Stand-ins for the serializer and the file hash.\<close>

definition demo_lib :: pylib where
  "demo_lib =
     \<lparr>json_dumps = (\<lambda>j. if j = JObj [] then ''{}'' else ''{...}''),
      json_dumps_indent2 = (\<lambda>j. ''{...}''),
      py_str = (\<lambda>j. ''?''),
      sha1_file = (\<lambda>p. if p = ''input.csv'' then Inr ''da39a3ee5e6b4b0d3255bfef95601890afd80709''
                         else Inl FileNotFoundError)\<rparr>"

section \<open>Sequencing\<close>

lemma sbind_Inr [simp]: "sbind (Inr x) f = f x"
  by (simp add: sbind_def)

lemma sbind_Inl [simp]: "sbind (Inl err) f = Inl err"
  by (simp add: sbind_def)


section \<open>Properties of the Identifier Normalizer\<close>



lemma lower_strip_compound: "lower (strip ''compound'') = ''compound''"
  by code_simp


lemma strip_unparsed: "strip ''not-a-smiles'' = ''not-a-smiles''"
  by code_simp


lemma tags_empty: "map strip (filter (\<lambda>t. strip t \<noteq> []) (split CHR '','' [])) = []"
  by code_simp




text \<open>
  C5. A compound row whose identifier RDKit does not parse keeps the raw
  identifier as normalized identifier, and its extras stay empty: no note is
  recorded. The note exists only on the branch for a missing library.
\<close>

theorem normalize_unparsed_compound:
  "normalize_row (Some demo_rdkit) demo_sha1 0 unparsed_row =
     Inr \<lparr>row_id = 0, entity_type = ''compound'', identifier' = ''not-a-smiles'',
          normalized_id = ''not-a-smiles'', name = None, context_tags = [], extras = []\<rparr>
   \<and> normalize_row None demo_sha1 0 unparsed_row =
     Inr \<lparr>row_id = 0, entity_type = ''compound'', identifier' = ''not-a-smiles'',
          normalized_id = ''not-a-smiles'', name = None, context_tags = [],
          extras = [(''note'', JStr ''RDKit not installed; kept original identifier'')]\<rparr>"
  by (simp add: normalize_row_def unparsed_row_def str_or_empty_def py_or_def
      lower_strip_compound strip_unparsed tags_empty make_entity_def normalize_id_def
      demo_rdkit_def)

section \<open>Properties of the Literature Fetcher\<close>





lemma is_digit_chars [simp]:
  "is_digit CHR ''0''" "is_digit CHR ''1''" "is_digit CHR ''2''" "is_digit CHR ''9''"
  "\<not> is_digit CHR ''W''"
  by code_simp+




lemma placeholder_refs_shape:
  "length (placeholder_refs q) = 2
   \<and> title (placeholder_refs q ! 0) = q @ '' '' @ en_dash @ '' placeholder study''
   \<and> year (placeholder_refs q ! 0) = Some 2018
   \<and> title (placeholder_refs q ! 1) = q @ '' '' @ en_dash @ '' review article''
   \<and> year (placeholder_refs q ! 1) = Some 2021
   \<and> list_all (\<lambda>r. pmid r = None \<and> url r = None) (placeholder_refs q)"
  by (simp add: placeholder_refs_def)






















section \<open>Properties of the ADMET Predictor\<close>



lemma admet_step_status:
  assumes "entity_type e = ''compound''"
    and "post (base @ ''/predict'') (request_body (identifier' e)) = Response code text"
    and "code \<noteq> 200"
  shows "admet_step (Some base) post csv_reader to_float e = Inr ([], [request_body (identifier' e)])"
  using assms by (simp add: admet_step_def)



text \<open>The loop over two lists in a row.\<close>

lemma admet_loop_append:
  "admet_loop aurl post csv_reader to_float i (xs @ ys) st =
     sbind (admet_loop aurl post csv_reader to_float i xs st)
       (\<lambda>st'. admet_loop aurl post csv_reader to_float (i + length xs) ys st')"
  by (induction xs arbitrary: i st) (simp_all split: sum.splits)

text \<open>The loop meets the service only at its own iterations.\<close>

lemma admet_loop_cong:
  assumes "\<forall>k < length xs. post (i + k) = post' (j + k)"
  shows "admet_loop aurl post csv_reader to_float i xs st =
         admet_loop aurl post' csv_reader to_float j xs st"
  using assms
proof (induction xs arbitrary: i j st)
  case Nil
  then show ?case by simp
next
  case (Cons e xs)
  have head: "post i = post' j"
    using Cons.prems[rule_format, of 0] by simp
  have rest: "\<forall>k < length xs. post (Suc i + k) = post' (Suc j + k)"
  proof (intro allI impI)
    fix k assume "k < length xs"
    then show "post (Suc i + k) = post' (Suc j + k)"
      using Cons.prems[rule_format, of "Suc k"] by simp
  qed
  show ?case
    using Cons.IH[OF rest] head by (simp split: sum.splits)
qed

text \<open>The predictions do not depend on the log of the requests.\<close>

lemma admet_loop_log:
  "map_sum id fst (admet_loop aurl post csv_reader to_float i xs (p, s)) =
   map_sum id fst (admet_loop aurl post csv_reader to_float i xs (p, s'))"
  by (induction xs arbitrary: i p s s') (simp_all split: sum.splits)



lemma admet_step_insulin:
  "admet_step aurl post csv_reader to_float insulin = Inr ([zero_prediction ''P01308''], [])"
  by (simp add: admet_step_def insulin_def)




text \<open>
  C4, as amended. A compound whose request is answered with a status other than
  200 gets no prediction record, and the loop goes on: the predictions of the
  run (or the exception that ends it) are those of the run on the list without
  that entity, the service answering the other entities as before.
\<close>

theorem admet_status_skip:
  assumes "entity_type e = ''compound''"
    and "post (length xs) (base @ ''/predict'') (request_body (identifier' e)) = Response code text"
    and "code \<noteq> 200"
  shows "admet_step (Some base) (post (length xs)) csv_reader to_float e
           = Inr ([], [request_body (identifier' e)])
   \<and> map_sum id fst (PredictADMETTool_run (Some base) post csv_reader to_float (xs @ e # ys))
     = map_sum id fst (PredictADMETTool_run (Some base) (\<lambda>j. if j < length xs then post j else post (Suc j))
                         csv_reader to_float (xs @ ys))"
proof -
  let ?post' = "\<lambda>j. if j < length xs then post j else post (Suc j)"
  have step: "admet_step (Some base) (post (length xs)) csv_reader to_float e
           = Inr ([], [request_body (identifier' e)])"
    by (rule admet_step_status[where post="post (length xs)", OF assms])
  have before: "admet_loop (Some base) ?post' csv_reader to_float 0 xs ([], [])
              = admet_loop (Some base) post csv_reader to_float 0 xs ([], [])"
    by (rule admet_loop_cong) simp
  have after: "admet_loop (Some base) ?post' csv_reader to_float (length xs) ys st
              = admet_loop (Some base) post csv_reader to_float (Suc (length xs)) ys st" for st
    by (rule admet_loop_cong) simp
  have "map_sum id fst (PredictADMETTool_run (Some base) post csv_reader to_float (xs @ e # ys))
     = map_sum id fst (PredictADMETTool_run (Some base) ?post' csv_reader to_float (xs @ ys))"
  proof (cases "admet_loop (Some base) post csv_reader to_float 0 xs ([], [])")
    case (Inl ex)
    then show ?thesis
      using before by (simp add: PredictADMETTool_run_def admet_loop_append)
  next
    case (Inr st)
    obtain p s where st: "st = (p, s)"
      by (cases st)
    show ?thesis
      using Inr before after step st
        admet_loop_log[of "Some base" post csv_reader to_float "Suc (length xs)" ys p
          "s @ [request_body (identifier' e)]" s]
      by (simp add: PredictADMETTool_run_def admet_loop_append)
  qed
  with step show ?thesis
    by simp
qed

lemma admet_run_insulin:
  "PredictADMETTool_run (Some ''http://admet'') post demo_csv demo_float [insulin]
     = Inr ([zero_prediction ''P01308''], [])"
  by (simp add: PredictADMETTool_run_def admet_step_insulin)

theorem admet_status_skip_witness:
  "entity_type ethanol = ''compound''
   \<and> admet_error_status (''http://admet'' @ ''/predict'') (request_body (identifier' ethanol))
       = Response 500 ''Internal Server Error''
   \<and> map_sum id fst (PredictADMETTool_run (Some ''http://admet'') (\<lambda>i. admet_error_status) demo_csv
         demo_float ([] @ ethanol # [insulin]))
       = Inr [zero_prediction ''P01308'']"
proof -
  have a: "entity_type ethanol = ''compound''"
    by (simp add: ethanol_def)
  have b: "(\<lambda>i. admet_error_status) (length ([] :: NormalizedEntity list)) (''http://admet'' @ ''/predict'')
             (request_body (identifier' ethanol)) = Response 500 ''Internal Server Error''"
    by (simp add: admet_error_status_def)
  have c: "(500::nat) \<noteq> 200"
    by simp
  show ?thesis
    using admet_status_skip[where post="\<lambda>i. admet_error_status" and xs="[]" and ys="[insulin]"
        and csv_reader=demo_csv and to_float=demo_float, OF a b c] a b
    by (simp add: admet_run_insulin)
qed

text \<open>
  C4, as stated, fails for a service that cannot be reached and for a response
  whose body has no rows: the exception leaves the loop, and the step returns
  no predictions at all, not even the record of the protein after the compound.
  The same holds when the base URL is not configured.
\<close>

theorem admet_failure_fatal_counterexample:
  "PredictADMETTool_run (Some ''http://admet'') (\<lambda>i. admet_unreachable) demo_csv demo_float
       [ethanol, insulin] = Inl RequestError
   \<and> PredictADMETTool_run (Some ''http://admet'') (\<lambda>i. admet_empty_body) demo_csv demo_float
       [ethanol, insulin] = Inl StopIteration"
  by (simp add: PredictADMETTool_run_def admet_step_def ethanol_def admet_unreachable_def
      admet_empty_body_def parse_results_def demo_csv_def)

section \<open>Properties of the Report Compiler\<close>

lemma set_key_hashable:
  "hashable k \<Longrightarrow> set_key m k v = Inr (case k of JStr s \<Rightarrow> m(s \<mapsto> v) | _ \<Rightarrow> m)"
  by (cases k) simp_all

lemma keyed_subscript:
  "keyed item \<Longrightarrow> \<exists>k. subscript item ''normalized_id'' = Inr k \<and> hashable k"
  by (cases item) (auto split: option.splits)

text \<open>Indexing a list of keyed documents never raises; the index has an entry
  for an identifier exactly when it had one before or a document carries the
  identifier, and every entry is an old one or one of the documents.\<close>

lemma index_items_keyed:
  assumes "list_all keyed items"
  shows "\<exists>m'. index_items items m = Inr m'
       \<and> (\<forall>nid. m' nid = None \<longleftrightarrow> m nid = None \<and> \<not> list_ex (has_id nid) items)
       \<and> (\<forall>nid v. m' nid = Some v \<longrightarrow> m nid = Some v \<or> v \<in> set items)"
  using assms
proof (induction items arbitrary: m)
  case Nil
  then show ?case by simp
next
  case (Cons item items)
  obtain k where k: "subscript item ''normalized_id'' = Inr k" "hashable k"
    using keyed_subscript Cons.prems by auto
  define m1 where "m1 = (case k of JStr s \<Rightarrow> m(s \<mapsto> item) | _ \<Rightarrow> m)"
  have step: "index_items (item # items) m = index_items items m1"
    using k by (simp add: set_key_hashable m1_def)
  have m1_none: "m1 nid = None \<longleftrightarrow> m nid = None \<and> \<not> has_id nid item" for nid
    using k by (cases k) (auto simp: m1_def has_id_def)
  have m1_some: "m1 nid = Some v \<Longrightarrow> m nid = Some v \<or> v = item" for nid v
    by (cases k) (auto simp: m1_def split: if_splits)
  from Cons.IH[of m1] Cons.prems obtain m' where m':
    "index_items items m1 = Inr m'"
    "\<forall>nid. m' nid = None \<longleftrightarrow> m1 nid = None \<and> \<not> list_ex (has_id nid) items"
    "\<forall>nid v. m' nid = Some v \<longrightarrow> m1 nid = Some v \<or> v \<in> set items"
    by auto
  have a: "\<forall>nid. m' nid = None \<longleftrightarrow> m nid = None \<and> \<not> list_ex (has_id nid) (item # items)"
    using m'(2) m1_none by simp
  have b: "\<forall>nid v. m' nid = Some v \<longrightarrow> m nid = Some v \<or> v \<in> set (item # items)"
    using m'(3) m1_some by fastforce
  show ?case
    using step m'(1) a b by simp
qed

lemma summary_shaped_subscript:
  "summary_shaped item \<Longrightarrow>
     \<exists>k v. subscript item ''normalized_id'' = Inr k \<and> hashable k
          \<and> subscript item ''summaries'' = Inr v \<and> summaries_shaped v"
  by (cases item) (auto split: option.splits)

lemma web_items_shaped:
  assumes "list_all summary_shaped items"
  shows "\<exists>m'. web_items items m = Inr m'
       \<and> (\<forall>nid. m' nid = None \<longleftrightarrow> m nid = None \<and> \<not> list_ex (has_id nid) items)
       \<and> (\<forall>nid v. m' nid = Some v \<longrightarrow> m nid = Some v \<or> summaries_shaped v)"
  using assms
proof (induction items arbitrary: m)
  case Nil
  then show ?case by simp
next
  case (Cons item items)
  obtain k v where k: "subscript item ''normalized_id'' = Inr k" "hashable k"
    and v: "subscript item ''summaries'' = Inr v" "summaries_shaped v"
    using summary_shaped_subscript Cons.prems by fastforce
  define m1 where "m1 = (case k of JStr s \<Rightarrow> m(s \<mapsto> v) | _ \<Rightarrow> m)"
  have step: "web_items (item # items) m = web_items items m1"
    using k v by (simp add: set_key_hashable m1_def)
  have m1_none: "m1 nid = None \<longleftrightarrow> m nid = None \<and> \<not> has_id nid item" for nid
    using k by (cases k) (auto simp: m1_def has_id_def)
  have m1_some: "m1 nid = Some w \<Longrightarrow> m nid = Some w \<or> w = v" for nid w
    by (cases k) (auto simp: m1_def split: if_splits)
  from Cons.IH[of m1] Cons.prems obtain m' where m':
    "web_items items m1 = Inr m'"
    "\<forall>nid. m' nid = None \<longleftrightarrow> m1 nid = None \<and> \<not> list_ex (has_id nid) items"
    "\<forall>nid w. m' nid = Some w \<longrightarrow> m1 nid = Some w \<or> summaries_shaped w"
    by auto
  have a: "\<forall>nid. m' nid = None \<longleftrightarrow> m nid = None \<and> \<not> list_ex (has_id nid) (item # items)"
    using m'(2) m1_none by simp
  have b: "\<forall>nid w. m' nid = Some w \<longrightarrow> m nid = Some w \<or> summaries_shaped w"
    using m'(3) m1_some v(2) by blast
  show ?case
    using step m'(1) a b by simp
qed

lemma web_map_of_no_items: "\<not> has_items web_data \<Longrightarrow> web_map_of web_data = Inr Map.empty"
  by (auto simp: has_items_def web_map_of_def split: json.splits option.splits)

lemma web_map_of_entries:
  "web_map_of web_data = sbind (web_entries web_data) (\<lambda>xs. web_items xs Map.empty)"
  by (simp add: web_map_of_def web_entries_def split: json.splits option.splits)

text \<open>The lines of the references of a shaped bundle, and the summary line of
  shaped summaries.\<close>

lemma ref_lines_dicts:
  "list_all is_dict items \<Longrightarrow> \<exists>out. ref_lines lib items pubmed_refs = Inr out"
proof (induction items arbitrary: pubmed_refs)
  case Nil
  then show ?case by simp
next
  case (Cons item items)
  then obtain kvs where item: "item = JObj kvs"
    by (cases item) auto
  show ?case
    using Cons.IH Cons.prems item by (cases "map_of kvs ''url''") auto
qed

lemma pubmed_refs_of_shaped:
  assumes "li = None \<or> (\<exists>l. li = Some l \<and> bundle_shaped l)"
  shows "\<exists>refs. pubmed_refs_of lib li = Inr refs"
proof (cases li)
  case None
  then show ?thesis by (simp add: pubmed_refs_of_def)
next
  case (Some l)
  then have "bundle_shaped l"
    using assms by simp
  then obtain kvs where l: "l = JObj kvs"
    and r: "case map_of kvs ''references'' of Some rs \<Rightarrow> refs_shaped rs | None \<Rightarrow> True"
    by (cases l) auto
  show ?thesis
  proof (cases "map_of kvs ''references''")
    case None
    then show ?thesis
      using Some l by (simp add: pubmed_refs_of_def)
  next
    case (Some rs)
    then have "refs_shaped rs"
      using r by simp
    then show ?thesis
      using \<open>li = Some l\<close> l Some ref_lines_dicts[of _ lib "[]"]
      by (cases rs) (auto simp: pubmed_refs_of_def refs_shaped_def)
  qed
qed

lemma summary_line_shaped:
  assumes "we = None \<or> (\<exists>w. we = Some w \<and> summaries_shaped w)"
  shows "\<exists>s. summary_line we = Inr s"
proof (cases we)
  case None
  then show ?thesis by (simp add: summary_line_def)
next
  case (Some w)
  then have "summaries_shaped w"
    using assms by simp
  then show ?thesis
    using Some by (cases "str_items w") (auto simp: summary_line_def summaries_shaped_def)
qed

lemma section_lines_shaped:
  assumes "literature_map (normalized_id e) = None
           \<or> (\<exists>l. literature_map (normalized_id e) = Some l \<and> bundle_shaped l)"
    and "web_map (normalized_id e) = None
           \<or> (\<exists>w. web_map (normalized_id e) = Some w \<and> summaries_shaped w)"
  shows "\<exists>summary refs. section_lines lib web_map literature_map admet_map e =
           Inr (entity_lines lib e
                @ [''#### Literature Summary'', summary, ''- **PubMed refs**:''] @ refs @ [[]]
                @ admet_lines lib (admet_map (normalized_id e)))
         \<and> summary_line (web_map (normalized_id e)) = Inr summary
         \<and> pubmed_refs_of lib (literature_map (normalized_id e)) = Inr refs"
proof -
  obtain refs where "pubmed_refs_of lib (literature_map (normalized_id e)) = Inr refs"
    using pubmed_refs_of_shaped[OF assms(1)] by blast
  moreover obtain s where "summary_line (web_map (normalized_id e)) = Inr s"
    using summary_line_shaped[OF assms(2)] by blast
  ultimately show ?thesis
    by (simp add: section_lines_def)
qed

lemma section_lines_unmatched:
  assumes "literature_map (normalized_id e) = None" and "web_map (normalized_id e) = None"
    and "admet_map (normalized_id e) = None"
  shows "section_lines lib web_map literature_map admet_map e =
           Inr (entity_lines lib e
                @ [''#### Literature Summary'', ''No pubmed refs available'', ''- **PubMed refs**:'',
                   ''- (none)'', [],
                   ''#### ADMET / Toxicity'', ''No ADMET data available'', []])"
  using assms by (simp add: section_lines_def pubmed_refs_of_def summary_line_def admet_lines_def)

lemma report_loop_sections:
  assumes "list_all2 (\<lambda>e sec. section_lines lib web_map literature_map admet_map e = Inr sec) ents secs"
  shows "report_loop lib web_map literature_map admet_map ents lines = Inr (lines @ concat secs)"
  using assms
  by (induction ents secs arbitrary: lines rule: list_all2_induct) simp_all

lemma bundle_shaped_keyed: "bundle_shaped j \<Longrightarrow> keyed j"
  by (cases j) auto

lemma entity_lines_shape:
  "length (entity_lines lib e) = 5"
  "hd (entity_lines lib e) = ''### '' @ name_or_identifier e @ '' ('' @ entity_type e @ '')''"
  by (simp_all add: entity_lines_def)

text \<open>The report compiled from shaped inputs: the three indexes, and one section
  for each entity.\<close>

lemma compile_shaped:
  assumes "sha1_file lib input_path = Inr hash"
    and "py_iter literature = Inr bundles" and "list_all bundle_shaped bundles"
    and "py_iter admet = Inr preds" and "list_all keyed preds"
    and "web_entries web_data = Inr entries" and "list_all summary_shaped entries"
  shows "\<exists>web_map literature_map admet_map secs.
     CompileReportTool_run lib run_dir ents web_data literature admet input_path =
       Inr \<lparr>out_path = path_join run_dir ''report.md'',
            report_lines = preamble ''output'' input_path hash (length ents) @ concat secs,
            report = run_report run_dir hash (length ents)\<rparr>
     \<and> list_all2 (\<lambda>e sec. section_lines lib web_map literature_map admet_map e = Inr sec) ents secs
     \<and> (\<forall>nid. web_map nid = None \<longleftrightarrow> \<not> list_ex (has_id nid) entries)
     \<and> (\<forall>nid. literature_map nid = None \<longleftrightarrow> \<not> list_ex (has_id nid) bundles)
     \<and> (\<forall>nid. admet_map nid = None \<longleftrightarrow> \<not> list_ex (has_id nid) preds)
     \<and> (\<forall>e. \<exists>summary refs.
           section_lines lib web_map literature_map admet_map e =
             Inr (entity_lines lib e
                  @ [''#### Literature Summary'', summary, ''- **PubMed refs**:''] @ refs @ [[]]
                  @ admet_lines lib (admet_map (normalized_id e)))
           \<and> summary_line (web_map (normalized_id e)) = Inr summary)"
proof -
  obtain wm where wm: "web_items entries Map.empty = Inr wm"
    and wm_none: "\<forall>nid. wm nid = None \<longleftrightarrow> \<not> list_ex (has_id nid) entries"
    and wm_some: "\<forall>nid v. wm nid = Some v \<longrightarrow> summaries_shaped v"
    using web_items_shaped[OF assms(7), of Map.empty] by auto
  have "list_all keyed bundles"
    using assms(3) bundle_shaped_keyed by (auto simp: list_all_iff)
  then obtain lm where lm: "index_items bundles Map.empty = Inr lm"
    and lm_none: "\<forall>nid. lm nid = None \<longleftrightarrow> \<not> list_ex (has_id nid) bundles"
    and lm_in: "\<forall>nid v. lm nid = Some v \<longrightarrow> v \<in> set bundles"
    using index_items_keyed[of bundles Map.empty] by auto
  have lm_some: "\<forall>nid v. lm nid = Some v \<longrightarrow> bundle_shaped v"
    using lm_in assms(3) by (auto simp: list_all_iff)
  obtain am where am: "index_items preds Map.empty = Inr am"
    and am_none: "\<forall>nid. am nid = None \<longleftrightarrow> \<not> list_ex (has_id nid) preds"
    using index_items_keyed[OF assms(5), of Map.empty] by auto
  have sec: "\<exists>summary refs.
           section_lines lib wm lm am e =
             Inr (entity_lines lib e
                  @ [''#### Literature Summary'', summary, ''- **PubMed refs**:''] @ refs @ [[]]
                  @ admet_lines lib (am (normalized_id e)))
           \<and> summary_line (wm (normalized_id e)) = Inr summary" for e
  proof -
    have l: "lm (normalized_id e) = None \<or> (\<exists>l. lm (normalized_id e) = Some l \<and> bundle_shaped l)"
      using lm_some by (cases "lm (normalized_id e)") auto
    have w: "wm (normalized_id e) = None \<or> (\<exists>w. wm (normalized_id e) = Some w \<and> summaries_shaped w)"
      using wm_some by (cases "wm (normalized_id e)") auto
    show ?thesis
      using section_lines_shaped[where literature_map=lm and web_map=wm and e=e and lib=lib
          and admet_map=am, OF l w] by blast
  qed
  define secs where "secs = map (\<lambda>e. projr (section_lines lib wm lm am e)) ents"
  have all2: "list_all2 (\<lambda>e sec. section_lines lib wm lm am e = Inr sec) ents secs"
    unfolding secs_def list_all2_map2
  proof (rule list_all2_refl)
    fix e
    show "section_lines lib wm lm am e = Inr (projr (section_lines lib wm lm am e))"
      using sec[of e] by auto
  qed
  have run: "CompileReportTool_run lib run_dir ents web_data literature admet input_path =
       Inr \<lparr>out_path = path_join run_dir ''report.md'',
            report_lines = preamble ''output'' input_path hash (length ents) @ concat secs,
            report = run_report run_dir hash (length ents)\<rparr>"
    using assms(1,2,4,6) wm lm am report_loop_sections[OF all2]
    by (simp add: CompileReportTool_run_def web_map_of_entries index_by_id_def)
  from run all2 wm_none lm_none am_none sec show ?thesis
    by blast
qed


text \<open>The report for ethanol alone, with no bundle, no web summary and no
  prediction.\<close>

lemma compile_ethanol_alone:
  "CompileReportTool_run demo_lib ''/app/output'' [ethanol] (JObj [(''items'', JArr [])]) (JArr [])
       (JArr []) ''input.csv'' =
     Inr \<lparr>out_path = path_join ''/app/output'' ''report.md'',
          report_lines =
            preamble ''output'' ''input.csv'' ''da39a3ee5e6b4b0d3255bfef95601890afd80709'' 1
            @ entity_lines demo_lib ethanol
            @ [''#### Literature Summary'', ''No pubmed refs available'', ''- **PubMed refs**:'',
               ''- (none)'', [],
               ''#### ADMET / Toxicity'', ''No ADMET data available'', []],
          report = run_report ''/app/output'' ''da39a3ee5e6b4b0d3255bfef95601890afd80709'' 1\<rparr>"
  by (simp add: CompileReportTool_run_def web_map_of_def index_by_id_def
      section_lines_unmatched)
     (simp add: demo_lib_def)


lemma web_entries_no_items: "\<not> has_items web_data \<Longrightarrow> web_entries web_data = Inr []"
  by (auto simp: has_items_def web_entries_def split: json.splits option.splits)

text \<open>
  C8, as amended. A web-summaries input that is no dict with the key
  \<^verbatim>\<open>items\<close> is read as the empty mapping: the compiler does what it does for
  an empty dict, and with bundles and predictions of the dumped shapes (and a
  readable input file) it returns the report, in which the section of every
  entity has the line \<^verbatim>\<open>No pubmed refs available\<close> as its literature summary.
\<close>

theorem compile_web_without_items:
  assumes "\<not> has_items web_data"
    and "sha1_file lib input_path = Inr hash"
    and "py_iter literature = Inr bundles" and "list_all bundle_shaped bundles"
    and "py_iter admet = Inr preds" and "list_all keyed preds"
  shows "web_map_of web_data = Inr Map.empty
   \<and> CompileReportTool_run lib run_dir ents web_data literature admet input_path
       = CompileReportTool_run lib run_dir ents (JObj []) literature admet input_path
   \<and> (\<exists>c secs.
        CompileReportTool_run lib run_dir ents web_data literature admet input_path = Inr c
        \<and> report_lines c = preamble ''output'' input_path hash (length ents) @ concat secs
        \<and> length secs = length ents
        \<and> list_all (\<lambda>sec. sec ! 6 = ''No pubmed refs available'') secs)"
proof -
  have empty: "web_map_of web_data = Inr Map.empty"
    by (rule web_map_of_no_items[OF assms(1)])
  have same: "CompileReportTool_run lib run_dir ents web_data literature admet input_path
       = CompileReportTool_run lib run_dir ents (JObj []) literature admet input_path"
    using empty by (simp add: CompileReportTool_run_def web_map_of_def)
  from compile_shaped[OF assms(2-6) web_entries_no_items[OF assms(1)], of run_dir ents]
  obtain wm lm am secs where
    run: "CompileReportTool_run lib run_dir ents web_data literature admet input_path =
       Inr \<lparr>out_path = path_join run_dir ''report.md'',
            report_lines = preamble ''output'' input_path hash (length ents) @ concat secs,
            report = run_report run_dir hash (length ents)\<rparr>"
    and all2: "list_all2 (\<lambda>e sec. section_lines lib wm lm am e = Inr sec) ents secs"
    and wm_none: "\<forall>nid. wm nid = None \<longleftrightarrow> \<not> list_ex (has_id nid) []"
    and sec: "\<forall>e. \<exists>summary refs.
           section_lines lib wm lm am e =
             Inr (entity_lines lib e
                  @ [''#### Literature Summary'', summary, ''- **PubMed refs**:''] @ refs @ [[]]
                  @ admet_lines lib (am (normalized_id e)))
           \<and> summary_line (wm (normalized_id e)) = Inr summary"
    by auto
  have len: "length secs = length ents"
    using all2 by (simp add: list_all2_lengthD)
  have line: "secs ! i ! 6 = ''No pubmed refs available''" if i: "i < length secs" for i
  proof -
    have nth: "section_lines lib wm lm am (ents ! i) = Inr (secs ! i)"
      using list_all2_nthD[OF all2] i len by simp
    obtain summary refs where shape:
      "section_lines lib wm lm am (ents ! i) =
             Inr (entity_lines lib (ents ! i)
                  @ [''#### Literature Summary'', summary, ''- **PubMed refs**:''] @ refs @ [[]]
                  @ admet_lines lib (am (normalized_id (ents ! i))))"
      and summary: "summary_line (wm (normalized_id (ents ! i))) = Inr summary"
      using sec by blast
    have "wm (normalized_id (ents ! i)) = None"
      using wm_none by simp
    then have "summary = ''No pubmed refs available''"
      using summary by (simp add: summary_line_def)
    then have eq: "secs ! i = entity_lines lib (ents ! i)
                  @ [''#### Literature Summary'', ''No pubmed refs available'', ''- **PubMed refs**:'']
                  @ refs @ [[]] @ admet_lines lib (am (normalized_id (ents ! i)))"
      using nth shape by simp
    show ?thesis
      unfolding eq by (simp add: nth_append entity_lines_shape(1))
  qed
  have all: "list_all (\<lambda>sec. sec ! 6 = ''No pubmed refs available'') secs"
    using line by (simp add: list_all_length)
  from run len all have "\<exists>c secs.
        CompileReportTool_run lib run_dir ents web_data literature admet input_path = Inr c
        \<and> report_lines c = preamble ''output'' input_path hash (length ents) @ concat secs
        \<and> length secs = length ents
        \<and> list_all (\<lambda>sec. sec ! 6 = ''No pubmed refs available'') secs"
    by (intro exI[of _ "\<lparr>out_path = path_join run_dir ''report.md'',
            report_lines = preamble ''output'' input_path hash (length ents) @ concat secs,
            report = run_report run_dir hash (length ents)\<rparr>"] exI[of _ secs]) simp
  with empty same show ?thesis
    by blast
qed

lemma compile_ethanol_offshape:
  "CompileReportTool_run demo_lib ''/app/output'' [ethanol] (JStr ''no summaries found'') (JArr [])
       (JArr []) ''input.csv'' =
     Inr \<lparr>out_path = path_join ''/app/output'' ''report.md'',
          report_lines =
            preamble ''output'' ''input.csv'' ''da39a3ee5e6b4b0d3255bfef95601890afd80709'' 1
            @ entity_lines demo_lib ethanol
            @ [''#### Literature Summary'', ''No pubmed refs available'', ''- **PubMed refs**:'',
               ''- (none)'', [],
               ''#### ADMET / Toxicity'', ''No ADMET data available'', []],
          report = run_report ''/app/output'' ''da39a3ee5e6b4b0d3255bfef95601890afd80709'' 1\<rparr>"
  by (simp add: CompileReportTool_run_def web_map_of_def index_by_id_def
      section_lines_unmatched)
     (simp add: demo_lib_def)

theorem compile_web_without_items_witness:
  "\<not> has_items (JStr ''no summaries found'')
   \<and> web_map_of (JStr ''no summaries found'') = Inr Map.empty
   \<and> map_sum id report_lines
        (CompileReportTool_run demo_lib ''/app/output'' [ethanol] (JStr ''no summaries found'')
           (JArr []) (JArr []) ''input.csv'')
       = Inr (preamble ''output'' ''input.csv'' ''da39a3ee5e6b4b0d3255bfef95601890afd80709'' 1
              @ entity_lines demo_lib ethanol
              @ [''#### Literature Summary'', ''No pubmed refs available'', ''- **PubMed refs**:'',
                 ''- (none)'', [],
                 ''#### ADMET / Toxicity'', ''No ADMET data available'', []])"
proof -
  have n: "\<not> has_items (JStr ''no summaries found'')"
    by (simp add: has_items_def)
  have h: "sha1_file demo_lib ''input.csv'' = Inr ''da39a3ee5e6b4b0d3255bfef95601890afd80709''"
    by (simp add: demo_lib_def)
  have l: "py_iter (JArr []) = Inr []" and s: "list_all bundle_shaped []" and k: "list_all keyed []"
    by simp_all
  have r: "map_sum id report_lines
        (CompileReportTool_run demo_lib ''/app/output'' [ethanol] (JStr ''no summaries found'')
           (JArr []) (JArr []) ''input.csv'')
       = Inr (preamble ''output'' ''input.csv'' ''da39a3ee5e6b4b0d3255bfef95601890afd80709'' 1
              @ entity_lines demo_lib ethanol
              @ [''#### Literature Summary'', ''No pubmed refs available'', ''- **PubMed refs**:'',
                 ''- (none)'', [],
                 ''#### ADMET / Toxicity'', ''No ADMET data available'', []])"
    by (simp add: compile_ethanol_offshape)
  from compile_web_without_items[where ents="[ethanol]" and run_dir="''/app/output''",
        OF n h l s l k]
  have e: "web_map_of (JStr ''no summaries found'') = Inr Map.empty"
    by blast
  from n e r show ?thesis
    by - (intro conjI; assumption)
qed

text \<open>
  C8, as stated, fails for a container that has the key \<^verbatim>\<open>items\<close> and not the
  shape: with \<^verbatim>\<open>{"items": null}\<close> the compiler raises a TypeError and renders
  nothing, and so it does with an entry that lacks its summaries.
\<close>

theorem compile_web_items_null_counterexample:
  "CompileReportTool_run demo_lib ''/app/output'' [ethanol] (JObj [(''items'', JNull)]) (JArr [])
       (JArr []) ''input.csv'' = Inl TypeError
   \<and> CompileReportTool_run demo_lib ''/app/output'' [ethanol]
       (JObj [(''items'', JArr [JObj [(''normalized_id'', JStr ''89b394fd02e5e5e60ae1e167780'')]])])
       (JArr []) (JArr []) ''input.csv'' = Inl KeyError"
  by (simp add: CompileReportTool_run_def web_map_of_def)

text \<open>
  C9. The record of the run names \<^verbatim>\<open>literature_summaries.json\<close> as the
  literature artifact. No step writes a file of that name: the fetcher writes
  \<^verbatim>\<open>literature_refs.json\<close>. The report, the entities and the predictions are
  named as they are written.
\<close>

theorem run_report_literature_path:
  "map_sum id (\<lambda>c. outputs (report c))
      (CompileReportTool_run demo_lib ''/app/output'' [ethanol] (JObj [(''items'', JArr [])]) (JArr [])
         (JArr []) ''input.csv'')
     = Inr [(''report_md'', ''/app/output/report.md''),
            (''entities_json'', ''/app/output/normalized_entities.json''),
            (''literature_json'', ''/app/output/literature_summaries.json''),
            (''admet_json'', ''/app/output/admet_predictions.json'')]
   \<and> written_by_fetch ''/app/output'' = ''/app/output/literature_refs.json''
   \<and> ''/app/output/literature_summaries.json'' \<notin> set (persisted ''/app/output'')
   \<and> ''/app/output/report.md'' \<in> set (persisted ''/app/output'')
   \<and> ''/app/output/normalized_entities.json'' \<in> set (persisted ''/app/output'')
   \<and> ''/app/output/admet_predictions.json'' \<in> set (persisted ''/app/output'')"
  by (simp add: compile_ethanol_alone run_report_def path_join_def persisted_def
      written_by_load_def written_by_normalize_def written_by_fetch_def written_by_admet_def
      written_by_compile_def)

end
